theory Spec2Isabelle
  imports Complex_Main "HOL-Library.Multiset" "HOL-Library.Char_ord" "HOL-Library.List_Lexorder"
begin

section \<open>The spin backend of the mini-app (src/index.js)\<close>

text \<open>
  The development follows \<^verbatim>\<open>src/index.js\<close> (the updated server) function by function;
  the older variant \<^verbatim>\<open>src/unnamed/part_000\<close> is followed where it differs.

  Conventions of the embedding.
  \<^item> A JavaScript string is a \<open>string\<close>, read as the bytes of its UTF-8 encoding. On such
    bytes the UTF-8 decoding that \<^verbatim>\<open>URLSearchParams\<close> applies after percent-decoding is the
    identity, and the default \<^verbatim>\<open>sort()\<close> (by code unit) is the byte-wise lexicographic
    order for ASCII text.
  \<^item> A call that can throw returns \<open>exn + 'a\<close>, with \<open>Inl\<close> for the exception;
    \<^verbatim>\<open>try { ... } catch\<close> is a case split on that sum.
  \<^item> A \<^verbatim>\<open>Date\<close> is its time value, the milliseconds since the epoch, an \<open>int\<close>;
    \<^verbatim>\<open>null\<close> is \<open>None\<close>.
  \<^item> \<^verbatim>\<open>spinsLeft\<close> only ever holds integers and is an \<open>int\<close>. \<^verbatim>\<open>balance\<close> and the
    reward values are \<open>real\<close>: the rounding of IEEE doubles is not part of the model.
  \<^item> What the platform supplies (the environment, the crypto library, \<^verbatim>\<open>JSON.parse\<close>,
    number formatting, the time zone of the host) is collected in the record \<open>runtime\<close>
    and is a parameter of every function that uses it.
\<close>

subsection \<open>Exceptions and the runtime\<close>

datatype exn = TypeError | SyntaxError | CryptoError | StoreError

text \<open>
  The values \<^verbatim>\<open>JSON.parse\<close> can return. An object is the list of its own properties
  (each key once).
\<close>

datatype json =
    JNull
  | JBool bool
  | JNum real
  | JStr string
  | JArr "json list"
  | JObj "(string \<times> json) list"

record runtime =
  BOT_TOKEN :: "string option"
    \<comment> \<open>\<^verbatim>\<open>process.env.BOT_TOKEN\<close>, \<open>None\<close> when unset\<close>
  sha256 :: "string \<Rightarrow> exn + string"
    \<comment> \<open>\<^verbatim>\<open>crypto.createHash("sha256").update(s).digest()\<close>\<close>
  hmac_sha256 :: "string \<Rightarrow> string \<Rightarrow> exn + string"
    \<comment> \<open>\<^verbatim>\<open>crypto.createHmac("sha256", key).update(s).digest()\<close>\<close>
  JSON_parse :: "string \<Rightarrow> exn + json"
  Number_toString :: "real \<Rightarrow> string"
  LocalTZA :: "int \<Rightarrow> int"
    \<comment> \<open>offset of the host's local time from UTC, in ms, at a given time value\<close>

subsection \<open>URLSearchParams\<close>

text \<open>
  \<^verbatim>\<open>new URLSearchParams(init)\<close> for a string: a leading \<^verbatim>\<open>?\<close> is dropped, the rest is
  split at \<^verbatim>\<open>&\<close>, empty pieces are skipped, each piece is split at its first \<^verbatim>\<open>=\<close>
  (no \<^verbatim>\<open>=\<close>: the value is empty), \<^verbatim>\<open>+\<close> becomes a space, and both parts are
  percent-decoded. The result is the list of (name, value) pairs in input order.
\<close>

fun splitOn :: "char \<Rightarrow> string \<Rightarrow> string list" where
  "splitOn d [] = [[]]"
| "splitOn d (c # cs) =
     (if c = d then [] # splitOn d cs
      else (case splitOn d cs of [] \<Rightarrow> [[c]] | p # ps \<Rightarrow> (c # p) # ps))"

definition hexDigit :: "char \<Rightarrow> nat option" where
  "hexDigit c =
     (let n = (of_char c :: nat) in
      if 48 \<le> n \<and> n \<le> 57 then Some (n - 48)
      else if 65 \<le> n \<and> n \<le> 70 then Some (n - 55)
      else if 97 \<le> n \<and> n \<le> 102 then Some (n - 87)
      else None)"

fun percentDecode :: "string \<Rightarrow> string" where
  "percentDecode [] = []"
| "percentDecode [c] = [c]"
| "percentDecode [c, d] = [c, d]"
| "percentDecode (c # a # b # cs) =
     (if c = CHR ''%'' then
        (case (hexDigit a, hexDigit b) of
           (Some h, Some l) \<Rightarrow> char_of (16 * h + l) # percentDecode cs
         | _ \<Rightarrow> c # percentDecode (a # b # cs))
      else c # percentDecode (a # b # cs))"

definition plusToSpace :: "string \<Rightarrow> string" where
  "plusToSpace s = map (\<lambda>c. if c = CHR ''+'' then CHR '' '' else c) s"

definition parsePair :: "string \<Rightarrow> string \<times> string" where
  "parsePair piece =
     (let name = takeWhile (\<lambda>c. c \<noteq> CHR ''='') piece;
          val = drop 1 (dropWhile (\<lambda>c. c \<noteq> CHR ''='') piece)
      in (percentDecode (plusToSpace name), percentDecode (plusToSpace val)))"

definition URLSearchParams :: "string \<Rightarrow> (string \<times> string) list" where
  "URLSearchParams init =
     (let input = (case init of c # cs \<Rightarrow> if c = CHR ''?'' then cs else init | [] \<Rightarrow> init)
      in map parsePair (filter (\<lambda>piece. piece \<noteq> []) (splitOn CHR ''&'' input)))"

text \<open>\<^verbatim>\<open>parsed.get(name)\<close>: the value of the first pair with that name, or \<^verbatim>\<open>null\<close>.\<close>

definition get :: "(string \<times> string) list \<Rightarrow> string \<Rightarrow> string option" where
  "get parsed name = map_of parsed name"

text \<open>\<^verbatim>\<open>parsed.delete(name)\<close>: every pair with that name is removed.\<close>

definition delete :: "(string \<times> string) list \<Rightarrow> string \<Rightarrow> (string \<times> string) list" where
  "delete parsed name = filter (\<lambda>(k, v). k \<noteq> name) parsed"

subsection \<open>verifyTelegram\<close>

definition join :: "string \<Rightarrow> string list \<Rightarrow> string" where
  "join sep xs = (case xs of [] \<Rightarrow> [] | y # ys \<Rightarrow> foldl (\<lambda>acc x. acc @ sep @ x) y ys)"

text \<open>
  The check-string of a parameter list, as both source files build it:
  \<^verbatim>\<open>[...parsed.entries()].map(([key, val]) => `${key}=${val}`).sort().join("\n")\<close>
  after \<^verbatim>\<open>parsed.delete("hash")\<close>.
\<close>

definition dataCheckStringOf :: "(string \<times> string) list \<Rightarrow> string" where
  "dataCheckStringOf parsed =
     join [CHR 0x0A] (sort (map (\<lambda>(key, val). key @ ''='' @ val) (delete parsed ''hash'')))"

definition dataCheckString :: "string \<Rightarrow> string" where
  "dataCheckString initData = dataCheckStringOf (URLSearchParams initData)"

text \<open>\<^verbatim>\<open>digest("hex")\<close>: two lower-case hexadecimal digits per byte.\<close>

definition hexChar :: "nat \<Rightarrow> char" where
  "hexChar n = (if n < 10 then char_of (48 + n) else char_of (87 + n))"

definition hex :: "string \<Rightarrow> string" where
  "hex bytes = concat (map (\<lambda>c. [hexChar ((of_char c :: nat) div 16), hexChar ((of_char c :: nat) mod 16)]) bytes)"

text \<open>
  The body of the \<^verbatim>\<open>try\<close> block of \<^verbatim>\<open>verifyTelegram\<close> in src/index.js. The argument is
  \<open>None\<close> for a missing (\<^verbatim>\<open>undefined\<close>) payload. \<^verbatim>\<open>!initData\<close> and \<^verbatim>\<open>!hash\<close> hold for a
  missing and for an empty string.
\<close>

definition verifyTelegram_try :: "runtime \<Rightarrow> string option \<Rightarrow> exn + bool" where
  "verifyTelegram_try rt initData =
     (case initData of
        None \<Rightarrow> Inr False
      | Some s \<Rightarrow>
          if s = [] then Inr False
          else
            let parsed = URLSearchParams s in
            (case get parsed ''hash'' of
               None \<Rightarrow> Inr False
             | Some hash \<Rightarrow>
                 if hash = [] then Inr False
                 else
                   (case sha256 rt (case BOT_TOKEN rt of None \<Rightarrow> [] | Some t \<Rightarrow> t) of
                      Inl e \<Rightarrow> Inl e
                    | Inr secretKey \<Rightarrow>
                        (case hmac_sha256 rt secretKey (dataCheckStringOf parsed) of
                           Inl e \<Rightarrow> Inl e
                         | Inr mac \<Rightarrow> Inr (hex mac = hash)))))"

text \<open>\<^verbatim>\<open>verifyTelegram\<close>: the \<^verbatim>\<open>catch\<close> clause logs and returns \<^verbatim>\<open>false\<close>.\<close>

definition verifyTelegram :: "runtime \<Rightarrow> string option \<Rightarrow> exn + bool" where
  "verifyTelegram rt initData =
     (case verifyTelegram_try rt initData of Inl err \<Rightarrow> Inr False | Inr b \<Rightarrow> Inr b)"

text \<open>
  \<^verbatim>\<open>verifyTelegram\<close> of src/unnamed/part_000: no \<^verbatim>\<open>try\<close>, no test of the payload or of
  the hash, and the key is \<^verbatim>\<open>HMAC-SHA256("WebAppData", BOT_TOKEN)\<close>. A missing payload
  parses to no parameters; \<^verbatim>\<open>update(undefined)\<close> throws a TypeError; a missing hash is
  \<^verbatim>\<open>null\<close>, which no digest equals.
\<close>

definition verifyTelegram_legacy :: "runtime \<Rightarrow> string option \<Rightarrow> exn + bool" where
  "verifyTelegram_legacy rt initData =
     (let parsed = (case initData of None \<Rightarrow> [] | Some s \<Rightarrow> URLSearchParams s);
          hash = get parsed ''hash''
      in case BOT_TOKEN rt of
           None \<Rightarrow> Inl TypeError
         | Some t \<Rightarrow>
             (case hmac_sha256 rt ''WebAppData'' t of
                Inl e \<Rightarrow> Inl e
              | Inr secretKey \<Rightarrow>
                  (case hmac_sha256 rt secretKey (dataCheckStringOf parsed) of
                     Inl e \<Rightarrow> Inl e
                   | Inr mac \<Rightarrow> Inr (Some (hex mac) = hash))))"

subsection \<open>extractTelegramId\<close>

text \<open>
  JavaScript truthiness of a parsed JSON value, and of a string that may be \<^verbatim>\<open>null\<close>.
\<close>

fun truthy :: "json \<Rightarrow> bool" where
  "truthy JNull = False"
| "truthy (JBool b) = b"
| "truthy (JNum x) = (x \<noteq> 0)"
| "truthy (JStr s) = (s \<noteq> [])"
| "truthy (JArr xs) = True"
| "truthy (JObj ps) = True"

definition strTruthy :: "string option \<Rightarrow> bool" where
  "strTruthy v = (case v of None \<Rightarrow> False | Some s \<Rightarrow> s \<noteq> [])"

text \<open>
  \<^verbatim>\<open>userObj.id\<close> for a value that is not \<^verbatim>\<open>null\<close>: an own property of an object, and
  \<^verbatim>\<open>undefined\<close> (\<open>None\<close>) on anything else.
\<close>

fun idOf :: "json \<Rightarrow> json option" where
  "idOf (JObj ps) = map_of ps ''id''"
| "idOf v = None"

text \<open>
  \<^verbatim>\<open>v.toString()\<close>. An array joins the strings of its elements with a comma, \<^verbatim>\<open>null\<close>
  elements giving the empty string. An object prints as \<^verbatim>\<open>[object Object]\<close>, unless it
  has an own property \<^verbatim>\<open>toString\<close>: that property is a JSON value, not a function, and
  the call throws.
\<close>

fun toString :: "runtime \<Rightarrow> json \<Rightarrow> exn + string"
  and joinElements :: "runtime \<Rightarrow> json list \<Rightarrow> exn + string" where
  "toString rt JNull = Inl TypeError"
| "toString rt (JBool b) = Inr (if b then ''true'' else ''false'')"
| "toString rt (JNum x) = Inr (Number_toString rt x)"
| "toString rt (JStr s) = Inr s"
| "toString rt (JArr xs) = joinElements rt xs"
| "toString rt (JObj ps) =
     (if ''toString'' \<in> set (map fst ps) then Inl TypeError else Inr ''[object Object]'')"
| "joinElements rt [] = Inr []"
| "joinElements rt (x # xs) =
     (case (if x = JNull then Inr [] else toString rt x) of
        Inl e \<Rightarrow> Inl e
      | Inr s \<Rightarrow>
          if xs = [] then Inr s
          else (case joinElements rt xs of Inl e \<Rightarrow> Inl e | Inr t \<Rightarrow> Inr (s @ '','' @ t)))"

text \<open>\<^verbatim>\<open>a || b\<close> on strings that may be \<^verbatim>\<open>null\<close>.\<close>

definition orElse :: "string option \<Rightarrow> string option \<Rightarrow> string option" where
  "orElse a b = (if strTruthy a then a else b)"

text \<open>
  The fallback of \<^verbatim>\<open>extractTelegramId\<close>:
  \<^verbatim>\<open>parsed.get("id") || parsed.get("user_id") || parsed.get("user_id")\<close>, returned when
  truthy, else \<^verbatim>\<open>null\<close>.
\<close>

definition flatId :: "(string \<times> string) list \<Rightarrow> string option" where
  "flatId parsed =
     (let id = orElse (orElse (get parsed ''id'') (get parsed ''user_id'')) (get parsed ''user_id'')
      in if strTruthy id then id else None)"

text \<open>The body of the \<^verbatim>\<open>try\<close> block of \<^verbatim>\<open>extractTelegramId\<close>.\<close>

definition extractTelegramId_try :: "runtime \<Rightarrow> string \<Rightarrow> exn + string option" where
  "extractTelegramId_try rt initData =
     (let parsed = URLSearchParams initData;
          userStr = get parsed ''user''
      in if strTruthy userStr then
           (case JSON_parse rt (the userStr) of
              Inl e \<Rightarrow> Inl e
            | Inr userObj \<Rightarrow>
                (case (if truthy userObj then idOf userObj else None) of
                   None \<Rightarrow> Inr (flatId parsed)
                 | Some i \<Rightarrow>
                     if truthy i then
                       (case toString rt i of Inl e \<Rightarrow> Inl e | Inr s \<Rightarrow> Inr (Some s))
                     else Inr (flatId parsed)))
         else Inr (flatId parsed))"

text \<open>\<^verbatim>\<open>extractTelegramId\<close>: the \<^verbatim>\<open>catch\<close> clause logs and returns \<^verbatim>\<open>null\<close>.\<close>

definition extractTelegramId :: "runtime \<Rightarrow> string \<Rightarrow> exn + string option" where
  "extractTelegramId rt initData =
     (case extractTelegramId_try rt initData of Inl err \<Rightarrow> Inr None | Inr v \<Rightarrow> Inr v)"

subsection \<open>Accounts and the store\<close>

record user =
  telegramId :: string
  spinsLeft :: int
  rewards :: "string list"
  balance :: real
  lastSpinDate :: "int option"

text \<open>\<^verbatim>\<open>new User({ telegramId })\<close>, with the defaults of the schema.\<close>

definition newUser :: "string \<Rightarrow> user" where
  "newUser tid =
     \<lparr>telegramId = tid, spinsLeft = 3, rewards = [], balance = 0, lastSpinDate = None\<rparr>"

text \<open>
  The collection of users, read and written by \<^verbatim>\<open>telegramId\<close>: \<^verbatim>\<open>findOne\<close> is a lookup
  and \<^verbatim>\<open>save\<close> stores the document under its \<^verbatim>\<open>telegramId\<close>. An operation of the store
  can fail; which one fails in a request, if any, is an input of the request.
\<close>

type_synonym store = "string \<rightharpoonup> user"

datatype db_fault = NoFault | FindOneFails | CreateFails | SaveFails

subsection \<open>The spin handler\<close>

record reward =
  label :: string
  rvalue :: real

definition rewards_table :: "reward list" where
  "rewards_table =
     [\<lparr>label = ''0.001 ETH'', rvalue = 1 / 1000\<rparr>,
      \<lparr>label = ''5 USDT'', rvalue = 5\<rparr>,
      \<lparr>label = ''Try Again'', rvalue = 0\<rparr>,
      \<lparr>label = ''0.1 ETH'', rvalue = 1 / 10\<rparr>]"

text \<open>
  \<^verbatim>\<open>rewards[Math.floor(Math.random() * rewards.length)]\<close>, for the number \<open>r\<close> that
  \<^verbatim>\<open>Math.random()\<close> returned; \<open>None\<close> is \<^verbatim>\<open>undefined\<close>, what an index outside the array
  gives.
\<close>

definition rewardAt :: "real \<Rightarrow> reward option" where
  "rewardAt r =
     (let i = \<lfloor>r * real (length rewards_table)\<rfloor>
      in if 0 \<le> i \<and> i < int (length rewards_table) then Some (rewards_table ! nat i) else None)"

text \<open>
  \<^verbatim>\<open>d.toDateString()\<close> prints the weekday, month, day and year of \<open>d\<close> in the local time
  of the host. Two such strings are equal exactly when the local day numbers are, and
  the model compares the day numbers.
\<close>

definition msPerDay :: int where
  "msPerDay = 86400000"

definition toDateString :: "runtime \<Rightarrow> int \<Rightarrow> int" where
  "toDateString rt t = (t + LocalTZA rt t) div msPerDay"

text \<open>The rollover test and assignment of the handler, on the loaded document.\<close>

definition needsRollover :: "runtime \<Rightarrow> int \<Rightarrow> user \<Rightarrow> bool" where
  "needsRollover rt today u =
     (case lastSpinDate u of
        None \<Rightarrow> True
      | Some d \<Rightarrow> toDateString rt d \<noteq> toDateString rt today)"

definition rollover :: "runtime \<Rightarrow> int \<Rightarrow> user \<Rightarrow> user" where
  "rollover rt today u =
     (if needsRollover rt today u then u\<lparr>spinsLeft := 3, lastSpinDate := Some today\<rparr> else u)"

datatype body =
    ErrorBody string
  | NoSpinsBody string int
  | RewardBody string real int

datatype response = Response (status: nat) (body: body)

text \<open>
  The first part of the handler, up to the second \<^verbatim>\<open>await\<close>: \<^verbatim>\<open>User.findOne\<close>, and
  for an unknown identity \<^verbatim>\<open>new User\<close> and its \<^verbatim>\<open>save\<close>. It returns the document the
  request goes on with.
\<close>

definition spin_load :: "db_fault \<Rightarrow> string \<Rightarrow> store \<Rightarrow> (exn + user) \<times> store" where
  "spin_load fault tid st =
     (if fault = FindOneFails then (Inl StoreError, st)
      else
        (case st tid of
           Some u \<Rightarrow> (Inr u, st)
         | None \<Rightarrow>
             if fault = CreateFails then (Inl StoreError, st)
             else (Inr (newUser tid), st(tid \<mapsto> newUser tid))))"

text \<open>
  The rest of the handler, on the loaded document \<open>user0\<close>: rollover, quota test,
  decrement, draw, \<^verbatim>\<open>user.save()\<close> and the response. \<open>today\<close> is the time value of
  \<^verbatim>\<open>new Date()\<close> and \<open>r\<close> the number \<^verbatim>\<open>Math.random()\<close> returned. An exception goes to
  the enclosing \<^verbatim>\<open>try\<close>; the store is returned as it is by then.
\<close>

definition spin_finish ::
  "runtime \<Rightarrow> int \<Rightarrow> real \<Rightarrow> db_fault \<Rightarrow> string \<Rightarrow> user \<Rightarrow> store \<Rightarrow> (exn + response) \<times> store" where
  "spin_finish rt today r fault tid user0 st =
     (let user1 = rollover rt today user0 in
      if spinsLeft user1 \<le> 0 then
        (Inr (Response 200 (NoSpinsBody ''No spins left today'' (spinsLeft user1))), st)
      else
        let user2 = user1\<lparr>spinsLeft := spinsLeft user1 - 1\<rparr> in
        (case rewardAt r of
           None \<Rightarrow> (Inl TypeError, st)
         | Some rw \<Rightarrow>
             let user3 =
               (if rvalue rw > 0 then
                  user2\<lparr>balance := balance user2 + rvalue rw,
                        rewards := rewards user2 @ [label rw]\<rparr>
                else user2)
             in if fault = SaveFails then (Inl StoreError, st)
                else (Inr (Response 200 (RewardBody (label rw) (balance user3) (spinsLeft user3))),
                      st(tid \<mapsto> user3))))"

text \<open>The handler from \<^verbatim>\<open>User.findOne\<close> to the final \<^verbatim>\<open>res.json\<close>, for the identity \<open>tid\<close>.\<close>

definition spin ::
  "runtime \<Rightarrow> int \<Rightarrow> real \<Rightarrow> db_fault \<Rightarrow> string \<Rightarrow> store \<Rightarrow> (exn + response) \<times> store" where
  "spin rt today r fault tid st =
     (case spin_load fault tid st of
        (Inl e, st1) \<Rightarrow> (Inl e, st1)
      | (Inr user0, st1) \<Rightarrow> spin_finish rt today r fault tid user0 st1)"

text \<open>
  \<^verbatim>\<open>POST /api/spin\<close>. The request body is an object whose \<^verbatim>\<open>initData\<close> is a string or
  is missing (\<open>None\<close>).
\<close>

definition api_spin ::
  "runtime \<Rightarrow> int \<Rightarrow> real \<Rightarrow> db_fault \<Rightarrow> string option \<Rightarrow> store \<Rightarrow> response \<times> store" where
  "api_spin rt today r fault initData st =
     (case initData of
        None \<Rightarrow> (Response 400 (ErrorBody ''Missing initData''), st)
      | Some s \<Rightarrow>
          if s = [] then (Response 400 (ErrorBody ''Missing initData''), st)
          else
            (case verifyTelegram rt initData of
               Inl e \<Rightarrow> (Response 500 (ErrorBody ''Internal server error''), st)
             | Inr ok \<Rightarrow>
                 if \<not> ok then (Response 403 (ErrorBody ''Invalid Telegram data''), st)
                 else
                   (case extractTelegramId rt s of
                      Inl e \<Rightarrow> (Response 500 (ErrorBody ''Internal server error''), st)
                    | Inr tid \<Rightarrow>
                        if \<not> strTruthy tid then
                          (Response 400 (ErrorBody ''Cannot determine user id''), st)
                        else
                          (case spin rt today r fault (the tid) st of
                             (Inl e, st') \<Rightarrow>
                               (Response 500 (ErrorBody ''Internal server error''), st')
                           | (Inr res, st') \<Rightarrow> (res, st')))))"

subsection \<open>The daily reset\<close>

text \<open>
  \<^verbatim>\<open>resetSpinsForAllUsers\<close>: \<^verbatim>\<open>updateMany\<close> over every document; a failure of the store
  is logged and nothing is written.
\<close>

definition resetSpinsForAllUsers :: "int \<Rightarrow> bool \<Rightarrow> store \<Rightarrow> store" where
  "resetSpinsForAllUsers now fails st =
     (if fails then st
      else (\<lambda>tid. map_option (\<lambda>u. u\<lparr>spinsLeft := 3, lastSpinDate := Some now\<rparr>) (st tid)))"

subsection \<open>Runs of the system\<close>

text \<open>
  The account a request for \<open>tid\<close> works on: the stored one, or the new one that the
  handler creates for an unknown identity.
\<close>

definition account :: "store \<Rightarrow> string \<Rightarrow> user" where
  "account st tid = (case st tid of None \<Rightarrow> newUser tid | Some u \<Rightarrow> u)"

text \<open>
  An operation on the store is a request to \<^verbatim>\<open>POST /api/spin\<close> or a firing of the
  daily reset; a run applies a list of them one after the other.
\<close>

datatype op =
    Spin int real db_fault "string option"
  | Reset int bool

fun step :: "runtime \<Rightarrow> op \<Rightarrow> store \<Rightarrow> store" where
  "step rt (Spin today r fault initData) st = snd (api_spin rt today r fault initData st)"
| "step rt (Reset now fails) st = resetSpinsForAllUsers now fails st"

fun run :: "runtime \<Rightarrow> op list \<Rightarrow> store \<Rightarrow> store" where
  "run rt [] st = st"
| "run rt (x # xs) st = run rt xs (step rt x st)"

definition spinsNonneg :: "store \<Rightarrow> bool" where
  "spinsNonneg st = (\<forall>u \<in> ran st. 0 \<le> spinsLeft u)"

definition spinsInRange :: "store \<Rightarrow> bool" where
  "spinsInRange st = (\<forall>u \<in> ran st. 0 \<le> spinsLeft u \<and> spinsLeft u \<le> 3)"

text \<open>
  Calls of the handler for one identity, each finished before the next starts, with the
  store reachable: the responses in order, and the final store.
\<close>

fun spins ::
  "runtime \<Rightarrow> (int \<times> real) list \<Rightarrow> string \<Rightarrow> store \<Rightarrow> (exn + response) list \<times> store" where
  "spins rt [] tid st = ([], st)"
| "spins rt ((today, r) # cs) tid st =
     (case spin rt today r NoFault tid st of
        (res, st1) \<Rightarrow> (case spins rt cs tid st1 of (rs, st2) \<Rightarrow> (res # rs, st2)))"

fun isGranted :: "exn + response \<Rightarrow> bool" where
  "isGranted (Inr (Response c (RewardBody l b n))) = True"
| "isGranted x = False"

fun isNoSpinsLeft :: "exn + response \<Rightarrow> bool" where
  "isNoSpinsLeft (Inr (Response c (NoSpinsBody e n))) = True"
| "isNoSpinsLeft x = False"

text \<open>The value of the reward that the number \<open>r\<close> selects (0 when it selects none).\<close>

definition drawValue :: "real \<Rightarrow> real" where
  "drawValue r = (case rewardAt r of None \<Rightarrow> 0 | Some rw \<Rightarrow> rvalue rw)"

text \<open>
  Two requests for one identity that overlap. A handler runs until its next
  \<^verbatim>\<open>await\<close>; here the second request is served while the first waits for the store, so
  both have loaded the account before either goes on, and each continues with the
  document it loaded. The result is the two responses and the store.
\<close>

definition overlapped_spins ::
  "runtime \<Rightarrow> int \<times> real \<Rightarrow> int \<times> real \<Rightarrow> string \<Rightarrow> store
     \<Rightarrow> (exn + response) \<times> (exn + response) \<times> store" where
  "overlapped_spins rt a b tid st =
     (case spin_load NoFault tid st of
        (la, st1) \<Rightarrow>
          (case spin_load NoFault tid st1 of
             (lb, st2) \<Rightarrow>
               (case (case la of
                        Inl e \<Rightarrow> (Inl e, st2)
                      | Inr ua \<Rightarrow> spin_finish rt (fst a) (snd a) NoFault tid ua st2) of
                  (ra, st3) \<Rightarrow>
                    (case (case lb of
                             Inl e \<Rightarrow> (Inl e, st3)
                           | Inr ub \<Rightarrow> spin_finish rt (fst b) (snd b) NoFault tid ub st3) of
                       (rb, st4) \<Rightarrow> (ra, rb, st4)))))"

subsection \<open>A runtime for the examples\<close>

text \<open>
  The examples below run the functions on concrete inputs and need a concrete runtime.
  Its digests are stand-ins (they are not SHA-256), and its \<^verbatim>\<open>JSON.parse\<close> and number
  formatting are those of JavaScript on the texts \<^verbatim>\<open>{bad\<close> (a syntax error) and
  \<^verbatim>\<open>7\<close> only; the host's local time is UTC.
\<close>

definition example_runtime :: runtime where
  "example_runtime =
     \<lparr>BOT_TOKEN = Some ''tok'',
      sha256 = (\<lambda>s. Inr s),
      hmac_sha256 = (\<lambda>k s. Inr [char_of (length k + length s)]),
      JSON_parse = (\<lambda>s. if s = ''7'' then Inr (JNum 7) else Inl SyntaxError),
      Number_toString = (\<lambda>x. ''7''),
      LocalTZA = (\<lambda>t. 0)\<rparr>"

section \<open>Properties\<close>

subsection \<open>Auxiliary facts\<close>

lemma length_rewards_table: "length rewards_table = 4"
  by (simp add: rewards_table_def)

lemma rewardAt_in_range:
  assumes "0 \<le> r" and "r < 1"
  shows "rewardAt r = Some (rewards_table ! nat \<lfloor>r * 4\<rfloor>) \<and> nat \<lfloor>r * 4\<rfloor> < 4"
proof -
  have a: "0 \<le> \<lfloor>r * 4\<rfloor>" using assms by simp
  have "r * 4 < 4" using assms by simp
  then have b: "\<lfloor>r * 4\<rfloor> < 4" by linarith
  have c: "nat \<lfloor>r * 4\<rfloor> < 4" using a b by linarith
  show ?thesis using a b c by (simp add: rewardAt_def length_rewards_table)
qed

lemma rewardAt_mem: "rewardAt r = Some rw \<Longrightarrow> rw \<in> set rewards_table"
proof -
  assume a: "rewardAt r = Some rw"
  let ?i = "\<lfloor>r * real (length rewards_table)\<rfloor>"
  have "0 \<le> ?i \<and> ?i < int (length rewards_table) \<and> rw = rewards_table ! nat ?i"
    using a by (auto simp add: rewardAt_def Let_def split: if_splits)
  then have "nat ?i < length rewards_table" and "rw = rewards_table ! nat ?i"
    by linarith+
  then show ?thesis by simp
qed

lemma rvalue_nonneg: "rw \<in> set rewards_table \<Longrightarrow> 0 \<le> rvalue rw"
  by (auto simp add: rewards_table_def)

lemma table_labels:
  "rw \<in> set rewards_table \<Longrightarrow> label rw \<in> {''0.001 ETH'', ''5 USDT'', ''Try Again'', ''0.1 ETH''}"
  by (auto simp add: rewards_table_def)

lemma rollover_keeps [simp]:
  "balance (rollover rt today u) = balance u"
  "rewards (rollover rt today u) = rewards u"
  "telegramId (rollover rt today u) = telegramId u"
  by (simp_all add: rollover_def)

text \<open>The handler in terms of the account it works on.\<close>

lemma spin_load_account:
  "spin_load fault tid st =
     (if fault = FindOneFails \<or> (st tid = None \<and> fault = CreateFails) then (Inl StoreError, st)
      else (Inr (account st tid), st(tid \<mapsto> account st tid)))"
  by (auto simp add: spin_load_def account_def fun_upd_idem split: option.splits)

lemma spin_unfold:
  "spin rt today r fault tid st =
     (if fault = FindOneFails \<or> (st tid = None \<and> fault = CreateFails) then (Inl StoreError, st)
      else spin_finish rt today r fault tid (account st tid) (st(tid \<mapsto> account st tid)))"
  by (simp add: spin_def spin_load_account)

lemma needsRollover_utc:
  assumes "LocalTZA rt = (\<lambda>t. 0)"
  shows "needsRollover rt today u \<longleftrightarrow>
           (case lastSpinDate u of None \<Rightarrow> True | Some d \<Rightarrow> d div msPerDay \<noteq> today div msPerDay)"
  using assms by (simp add: needsRollover_def toDateString_def split: option.splits)

lemma spin_after_rollover:
  assumes "needsRollover rt today (account st tid)" and "rewardAt r = Some rw"
  shows "spinsLeft (rollover rt today (account st tid)) = 3
     \<and> lastSpinDate (rollover rt today (account st tid)) = Some today
     \<and> (case spin rt today r NoFault tid st of
          (res, st') \<Rightarrow>
            res = Inr (Response 200 (RewardBody (label rw) (balance (account st' tid)) 2))
            \<and> spinsLeft (account st' tid) = 2
            \<and> lastSpinDate (account st' tid) = Some today)"
  using assms by (simp add: spin_unfold spin_finish_def rollover_def Let_def account_def)

lemma verifyTelegram_no_hash:
  assumes "get (URLSearchParams s) ''hash'' = None \<or> get (URLSearchParams s) ''hash'' = Some []"
  shows "verifyTelegram rt (Some s) = Inr False"
  using assms by (auto simp add: verifyTelegram_def verifyTelegram_try_def Let_def)

lemma URLSearchParams_user1: "URLSearchParams ''user=1'' = [(''user'', ''1'')]"
  by (simp add: URLSearchParams_def parsePair_def plusToSpace_def)

lemma extractTelegramId_parse_error:
  assumes "strTruthy (get (URLSearchParams s) ''user'')"
    and "JSON_parse rt (the (get (URLSearchParams s) ''user'')) = Inl e"
  shows "extractTelegramId rt s = Inr None"
  using assms by (simp add: extractTelegramId_def extractTelegramId_try_def Let_def)

lemma extractTelegramId_no_user:
  assumes "\<not> strTruthy (get (URLSearchParams s) ''user'')"
  shows "extractTelegramId rt s = Inr (flatId (URLSearchParams s))"
  using assms by (simp add: extractTelegramId_def extractTelegramId_try_def Let_def)

lemma extractTelegramId_no_id:
  assumes "strTruthy (get (URLSearchParams s) ''user'')"
    and "JSON_parse rt (the (get (URLSearchParams s) ''user'')) = Inr v"
    and "\<not> truthy v \<or> idOf v = None \<or> (\<exists>i. idOf v = Some i \<and> \<not> truthy i)"
  shows "extractTelegramId rt s = Inr (flatId (URLSearchParams s))"
  using assms by (auto simp add: extractTelegramId_def extractTelegramId_try_def Let_def)

lemma URLSearchParams_bad_user:
  "URLSearchParams ''user=%7Bbad&id=42'' = [(''user'', ''{bad''), (''id'', ''42'')]"
  by code_simp

lemma dataCheckStringOf_mset:
  assumes "mset p' = mset p"
  shows "dataCheckStringOf p' = dataCheckStringOf p"
proof -
  let ?line = "\<lambda>(key, val). key @ ''='' @ (val :: string)"
  have e: "mset (delete p' ''hash'') = mset (delete p ''hash'')"
    using assms by (simp add: delete_def)
  have m: "mset (map ?line (delete p ''hash'')) = mset (map ?line (delete p' ''hash''))"
    unfolding mset_map by (subst e) (rule refl)
  have "sort (map ?line (delete p' ''hash'')) = sort (map ?line (delete p ''hash''))"
    by (rule properties_for_sort) (simp_all only: mset_sort sorted_sort m)
  then show ?thesis by (simp add: dataCheckStringOf_def)
qed

lemma URLSearchParams_Nil: "URLSearchParams [] = []"
  by (simp add: URLSearchParams_def)

lemma verifyTelegram_try_parsed:
  "verifyTelegram_try rt (Some s) =
     (case get (URLSearchParams s) ''hash'' of
        None \<Rightarrow> Inr False
      | Some hash \<Rightarrow>
          if hash = [] then Inr False
          else
            (case sha256 rt (case BOT_TOKEN rt of None \<Rightarrow> [] | Some t \<Rightarrow> t) of
               Inl e \<Rightarrow> Inl e
             | Inr secretKey \<Rightarrow>
                 (case hmac_sha256 rt secretKey (dataCheckStringOf (URLSearchParams s)) of
                    Inl e \<Rightarrow> Inl e
                  | Inr mac \<Rightarrow> Inr (hex mac = hash))))"
  by (cases "s = []") (simp_all add: verifyTelegram_try_def URLSearchParams_Nil get_def Let_def)

lemma api_spin_store:
  "snd (api_spin rt today r fault initData st) = st
   \<or> (\<exists>tid. snd (api_spin rt today r fault initData st) = snd (spin rt today r fault tid st))"
  by (auto simp add: api_spin_def split: option.splits sum.splits prod.splits) (metis snd_conv)+

lemma spin_store_cases:
  "snd (spin rt today r fault tid st) = st
   \<or> snd (spin rt today r fault tid st) = st(tid \<mapsto> account st tid)
   \<or> (0 < spinsLeft (rollover rt today (account st tid))
      \<and> (\<exists>u'. snd (spin rt today r fault tid st) = st(tid \<mapsto> u')
            \<and> spinsLeft u' = spinsLeft (rollover rt today (account st tid)) - 1))"
  by (auto simp add: spin_unfold spin_finish_def Let_def split: option.splits)

lemma account_cases: "account st tid \<in> ran st \<or> account st tid = newUser tid"
  by (auto simp add: account_def ran_def split: option.splits)

lemma ran_upd_subset: "u \<in> ran (st(tid \<mapsto> v)) \<Longrightarrow> u = v \<or> u \<in> ran st"
  by (auto simp add: ran_def split: if_splits)

lemma spinsLeft_rollover:
  "spinsLeft (rollover rt today u) = (if needsRollover rt today u then 3 else spinsLeft u)"
  by (simp add: rollover_def)

lemma spin_spinsNonneg:
  assumes "spinsNonneg st"
  shows "spinsNonneg (snd (spin rt today r fault tid st))"
proof -
  have a: "0 \<le> spinsLeft (account st tid)"
    using assms account_cases [of st tid] by (auto simp add: spinsNonneg_def newUser_def)
  have "0 \<le> spinsLeft u" if "u \<in> ran (snd (spin rt today r fault tid st))" for u
    using spin_store_cases [of rt today r fault tid st] that assms a
    by (auto simp add: spinsNonneg_def dest!: ran_upd_subset)
  then show ?thesis by (simp add: spinsNonneg_def)
qed

lemma spin_spinsInRange:
  assumes "spinsInRange st"
  shows "spinsInRange (snd (spin rt today r fault tid st))"
proof -
  have a: "0 \<le> spinsLeft (account st tid) \<and> spinsLeft (account st tid) \<le> 3"
    using assms account_cases [of st tid] by (auto simp add: spinsInRange_def newUser_def)
  then have b: "spinsLeft (rollover rt today (account st tid)) \<le> 3"
    by (simp add: spinsLeft_rollover)
  have "0 \<le> spinsLeft u \<and> spinsLeft u \<le> 3" if "u \<in> ran (snd (spin rt today r fault tid st))" for u
    using spin_store_cases [of rt today r fault tid st] that assms a b
    by (auto simp add: spinsInRange_def dest!: ran_upd_subset)
  then show ?thesis by (simp add: spinsInRange_def)
qed

lemma reset_full: "u \<in> ran (resetSpinsForAllUsers now False st) \<Longrightarrow> spinsLeft u = 3"
  by (auto simp add: resetSpinsForAllUsers_def ran_def)

lemma step_spinsNonneg: "spinsNonneg st \<Longrightarrow> spinsNonneg (step rt x st)"
proof (cases x)
  case (Spin today r fault initData)
  assume "spinsNonneg st"
  then show ?thesis
    using Spin api_spin_store [of rt today r fault initData st] spin_spinsNonneg [of st rt today r fault]
    by auto
next
  case (Reset now fails)
  assume "spinsNonneg st"
  then show ?thesis
    using Reset by (cases fails) (auto simp add: spinsNonneg_def resetSpinsForAllUsers_def dest: reset_full [of _ now st, unfolded resetSpinsForAllUsers_def, simplified])
qed

lemma step_spinsInRange: "spinsInRange st \<Longrightarrow> spinsInRange (step rt x st)"
proof (cases x)
  case (Spin today r fault initData)
  assume "spinsInRange st"
  then show ?thesis
    using Spin api_spin_store [of rt today r fault initData st] spin_spinsInRange [of st rt today r fault]
    by auto
next
  case (Reset now fails)
  assume "spinsInRange st"
  then show ?thesis
    using Reset by (cases fails) (auto simp add: spinsInRange_def resetSpinsForAllUsers_def dest: reset_full [of _ now st, unfolded resetSpinsForAllUsers_def, simplified])
qed

lemma run_spinsNonneg: "spinsNonneg st \<Longrightarrow> spinsNonneg (run rt ops st)"
  by (induction ops arbitrary: st) (simp_all add: step_spinsNonneg)

lemma run_spinsInRange: "spinsInRange st \<Longrightarrow> spinsInRange (run rt ops st)"
  by (induction ops arbitrary: st) (simp_all add: step_spinsInRange)

lemma spin_granted_decrement:
  assumes "isGranted (fst (spin rt today r fault tid st))"
  shows "spinsLeft (account (snd (spin rt today r fault tid st)) tid)
           = spinsLeft (rollover rt today (account st tid)) - 1"
  using assms
  by (auto simp add: spin_unfold spin_finish_def Let_def account_def split: option.splits if_splits)

lemma spin_no_rollover_no_increase:
  assumes "\<not> needsRollover rt today (account st tid)"
  shows "spinsLeft (account (snd (spin rt today r fault tid st)) tid) \<le> spinsLeft (account st tid)"
  using assms
  by (auto simp add: spin_unfold spin_finish_def Let_def account_def rollover_def split: option.splits if_splits)

lemma spin_other_accounts:
  assumes "tid' \<noteq> tid"
  shows "snd (spin rt today r fault tid st) tid' = st tid'"
  using assms
  by (auto simp add: spin_unfold spin_finish_def Let_def split: option.splits if_splits)

lemma spin_same_day:
  assumes "st tid = Some u" and "lastSpinDate u = Some d"
    and "toDateString rt today = toDateString rt d" and "0 \<le> r" and "r < 1"
  shows "spin rt today r NoFault tid st =
     (if spinsLeft u \<le> 0
      then (Inr (Response 200 (NoSpinsBody ''No spins left today'' (spinsLeft u))), st)
      else (Inr (Response 200 (RewardBody (label (the (rewardAt r))) (balance u + drawValue r) (spinsLeft u - 1))),
            st(tid \<mapsto> u\<lparr>spinsLeft := spinsLeft u - 1, balance := balance u + drawValue r,
                 rewards := (if 0 < drawValue r then rewards u @ [label (the (rewardAt r))] else rewards u)\<rparr>)))"
proof -
  obtain rw where ra: "rewardAt r = Some rw"
    using rewardAt_in_range [OF assms(4,5)] by blast
  have nr: "rollover rt today u = u"
    using assms(2,3) by (simp add: rollover_def needsRollover_def)
  have acc: "account st tid = u" using assms(1) by (simp add: account_def)
  have upd: "st(tid \<mapsto> u) = st" using assms(1) by (simp add: fun_upd_idem)
  have "0 \<le> rvalue rw"
    using ra by (intro rvalue_nonneg rewardAt_mem)
  then consider "0 < rvalue rw" | "rvalue rw = 0" by linarith
  then show ?thesis
    by cases (simp_all add: spin_unfold spin_finish_def acc upd nr ra drawValue_def Let_def)
qed

lemma spins_no_spins:
  assumes "st tid = Some u" and "lastSpinDate u = Some d" and "spinsLeft u = 0"
    and "\<forall>(today, r) \<in> set calls. toDateString rt today = toDateString rt d \<and> 0 \<le> r \<and> r < 1"
  shows "spins rt calls tid st =
           (replicate (length calls) (Inr (Response 200 (NoSpinsBody ''No spins left today'' 0))), st)"
  using assms
proof (induction calls)
  case Nil
  then show ?case by simp
next
  case (Cons c cs)
  obtain today r where c: "c = (today, r)" by (cases c)
  have "spin rt today r NoFault tid st = (Inr (Response 200 (NoSpinsBody ''No spins left today'' 0)), st)"
    using spin_same_day [of st tid u d rt today r] Cons.prems c by simp
  moreover have "spins rt cs tid st =
           (replicate (length cs) (Inr (Response 200 (NoSpinsBody ''No spins left today'' 0))), st)"
    using Cons by simp
  ultimately show ?case using c by simp
qed

lemma same_day_example:
  "toDateString example_runtime 1704110400000 = toDateString example_runtime 1704103200000"
  "toDateString example_runtime 1704110400001 = toDateString example_runtime 1704103200000"
  "toDateString example_runtime 1704110400002 = toDateString example_runtime 1704103200000"
  by (simp_all add: toDateString_def msPerDay_def example_runtime_def)

subsection \<open>The rollover\<close>

text \<open>
  Claim C1 says that the rollover fires when the UTC calendar date of
  \<^verbatim>\<open>lastSpinDate\<close> differs from the current UTC date. The handler compares
  \<^verbatim>\<open>toDateString()\<close>, the date in the local time of the host. On a host one hour behind
  UTC, an account that last spun on 2024-01-01 at 23:30 UTC with no spin left, spinning
  on 2024-01-02 at 00:30 UTC (the next UTC day; 22:30 and 23:30 of the same local day),
  gets no rollover: the answer is "No spins left today" with a count of 0 and the store
  is unchanged. (\<open>needsRollover_utc\<close> and \<open>spin_after_rollover\<close> give the behaviour the claim
  describes for a host whose local time is UTC.)
\<close>

theorem rollover_compares_local_dates:
  "1704151800000 div msPerDay \<noteq> 1704155400000 div msPerDay
   \<and> spin (example_runtime\<lparr>LocalTZA := (\<lambda>t. - 3600000)\<rparr>) 1704155400000 (1 / 2) NoFault ''u3''
        (Map.empty(''u3'' \<mapsto> \<lparr>telegramId = ''u3'', spinsLeft = 0, rewards = [], balance = 0,
           lastSpinDate = Some 1704151800000\<rparr>))
      = (Inr (Response 200 (NoSpinsBody ''No spins left today'' 0)),
         Map.empty(''u3'' \<mapsto> \<lparr>telegramId = ''u3'', spinsLeft = 0, rewards = [], balance = 0,
           lastSpinDate = Some 1704151800000\<rparr>))"
  by (simp add: spin_unfold spin_finish_def account_def rollover_def needsRollover_def
      toDateString_def msPerDay_def example_runtime_def)

subsection \<open>The quota test\<close>

text \<open>
  Claim C2. When the loaded account has no spin left after the rollover test, the
  handler answers "No spins left today" with the remaining count, status 200, and the
  store is the one it started from: no rollover took place, and balance, reward history
  and \<^verbatim>\<open>spinsLeft\<close> of the persisted record are untouched.
\<close>

theorem no_spins_left_unchanged:
  assumes "st tid = Some u" and "fault \<noteq> FindOneFails"
    and "spinsLeft (rollover rt today u) \<le> 0"
  shows "spin rt today r fault tid st =
           (Inr (Response 200 (NoSpinsBody ''No spins left today'' (spinsLeft u))), st)
         \<and> rollover rt today u = u"
proof -
  have nr: "\<not> needsRollover rt today u"
    using assms(3) by (auto simp add: rollover_def split: if_splits)
  then have ru: "rollover rt today u = u" by (simp add: rollover_def)
  have "account st tid = u" using assms(1) by (simp add: account_def)
  moreover have "st(tid \<mapsto> u) = st" using assms(1) by (simp add: fun_upd_idem)
  ultimately show ?thesis using assms ru by (simp add: spin_unfold spin_finish_def)
qed

theorem no_spins_left_unchanged_witness:
  "(Map.empty(''u2'' \<mapsto> \<lparr>telegramId = ''u2'', spinsLeft = 0, rewards = [], balance = 0,
        lastSpinDate = Some 1704103200000\<rparr>)) ''u2''
     = Some \<lparr>telegramId = ''u2'', spinsLeft = 0, rewards = [], balance = 0,
        lastSpinDate = Some 1704103200000\<rparr>
   \<and> NoFault \<noteq> FindOneFails
   \<and> spinsLeft (rollover example_runtime 1704110400000
        \<lparr>telegramId = ''u2'', spinsLeft = 0, rewards = [], balance = 0,
         lastSpinDate = Some 1704103200000\<rparr>) \<le> 0
   \<and> spin example_runtime 1704110400000 (1 / 2) NoFault ''u2''
        (Map.empty(''u2'' \<mapsto> \<lparr>telegramId = ''u2'', spinsLeft = 0, rewards = [], balance = 0,
           lastSpinDate = Some 1704103200000\<rparr>))
      = (Inr (Response 200 (NoSpinsBody ''No spins left today'' 0)),
         Map.empty(''u2'' \<mapsto> \<lparr>telegramId = ''u2'', spinsLeft = 0, rewards = [], balance = 0,
           lastSpinDate = Some 1704103200000\<rparr>))"
  using no_spins_left_unchanged [of
      "Map.empty(''u2'' \<mapsto> \<lparr>telegramId = ''u2'', spinsLeft = 0, rewards = [], balance = 0,
         lastSpinDate = Some 1704103200000\<rparr>)"
      "''u2''"
      "\<lparr>telegramId = ''u2'', spinsLeft = 0, rewards = [], balance = 0,
        lastSpinDate = Some 1704103200000\<rparr>"
      NoFault example_runtime 1704110400000 "1 / 2"]
  by (simp add: rollover_def needsRollover_def toDateString_def msPerDay_def example_runtime_def)

subsection \<open>Balance and reward history\<close>

text \<open>
  Claim C4. A call of the handler never lowers the balance of the account. When the call
  is granted, the balance grows by exactly the value of the reward drawn, the label of
  that reward is appended to the history if and only if its value is greater than 0,
  and one spin is consumed either way; a call that is not granted leaves balance and
  history as they were.
\<close>

theorem spin_balance_history:
  assumes "spin rt today r fault tid st = (res, st')"
  shows "balance (account st tid) \<le> balance (account st' tid)
     \<and> (\<forall>l b n. res = Inr (Response 200 (RewardBody l b n)) \<longrightarrow>
          (\<exists>rw. rewardAt r = Some rw \<and> rw \<in> set rewards_table \<and> l = label rw
             \<and> balance (account st' tid) = balance (account st tid) + rvalue rw
             \<and> rewards (account st' tid) =
                 (if 0 < rvalue rw then rewards (account st tid) @ [label rw]
                  else rewards (account st tid))
             \<and> spinsLeft (account st' tid) = spinsLeft (rollover rt today (account st tid)) - 1
             \<and> b = balance (account st' tid) \<and> n = spinsLeft (account st' tid)))
     \<and> ((\<forall>l b n. res \<noteq> Inr (Response 200 (RewardBody l b n))) \<longrightarrow>
          balance (account st' tid) = balance (account st tid)
          \<and> rewards (account st' tid) = rewards (account st tid))"
proof (cases "fault = FindOneFails \<or> (st tid = None \<and> fault = CreateFails)")
  case True
  then show ?thesis using assms by (auto simp add: spin_unfold)
next
  case False
  let ?u = "account st tid"
  let ?st1 = "st(tid \<mapsto> ?u)"
  have fin: "spin_finish rt today r fault tid ?u ?st1 = (res, st')"
    using assms False by (simp add: spin_unfold)
  have acc1: "account ?st1 tid = ?u" by (simp add: account_def)
  show ?thesis
  proof (cases "spinsLeft (rollover rt today ?u) \<le> 0")
    case True
    then have "res = Inr (Response 200 (NoSpinsBody ''No spins left today'' (spinsLeft (rollover rt today ?u))))"
      and "st' = ?st1"
      using fin by (simp_all add: spin_finish_def)
    then show ?thesis using acc1 by simp
  next
    case pos: False
    show ?thesis
    proof (cases "rewardAt r")
      case None
      then have "res = Inl TypeError" and "st' = ?st1"
        using fin pos by (simp_all add: spin_finish_def)
      then show ?thesis using acc1 by simp
    next
      case (Some rw)
      have mem: "rw \<in> set rewards_table" using Some by (rule rewardAt_mem)
      have nn: "0 \<le> rvalue rw" using mem by (rule rvalue_nonneg)
      show ?thesis
      proof (cases "fault = SaveFails")
        case True
        then have "res = Inl StoreError" and "st' = ?st1"
          using fin pos Some by (simp_all add: spin_finish_def Let_def)
        then show ?thesis using acc1 by simp
      next
        case ok: False
        show ?thesis
          using fin pos Some ok nn mem
          by (auto simp add: spin_finish_def Let_def account_def)
      qed
    qed
  qed
qed

theorem spin_balance_history_witness:
  "spin example_runtime 0 0 NoFault ''u1'' Map.empty
     = (Inr (Response 200 (RewardBody ''0.001 ETH'' (1 / 1000) 2)),
        Map.empty(''u1'' \<mapsto> \<lparr>telegramId = ''u1'', spinsLeft = 2, rewards = [''0.001 ETH''],
          balance = 1 / 1000, lastSpinDate = Some 0\<rparr>))
   \<and> balance (account Map.empty ''u1'')
       \<le> balance (account (Map.empty(''u1'' \<mapsto> \<lparr>telegramId = ''u1'', spinsLeft = 2,
            rewards = [''0.001 ETH''], balance = 1 / 1000, lastSpinDate = Some 0\<rparr>)) ''u1'')"
  using spin_balance_history [of example_runtime 0 0 NoFault "''u1''" Map.empty
      "Inr (Response 200 (RewardBody ''0.001 ETH'' (1 / 1000) 2))"
      "Map.empty(''u1'' \<mapsto> \<lparr>telegramId = ''u1'', spinsLeft = 2, rewards = [''0.001 ETH''],
         balance = 1 / 1000, lastSpinDate = Some 0\<rparr>)"]
  by (simp add: spin_unfold spin_finish_def account_def newUser_def rollover_def
      needsRollover_def rewardAt_def rewards_table_def)

subsection \<open>Reward selection\<close>

text \<open>
  Claim C10. For a number \<open>r\<close> with \<open>0 \<le> r < 1\<close>, as \<^verbatim>\<open>Math.random()\<close> returns, the index
  \<^verbatim>\<open>Math.floor(r * rewards.length)\<close> lies inside the table of four rewards: a reward is
  selected, the handler never fails on an undefined reward, and a call that passes the
  quota test with the store reachable is answered with the label of that reward, one
  of the four of the table.
\<close>

theorem reward_selection_total:
  assumes "0 \<le> r" and "r < 1"
  shows "\<exists>rw. rewardAt r = Some rw \<and> rw \<in> set rewards_table
           \<and> label rw \<in> {''0.001 ETH'', ''5 USDT'', ''Try Again'', ''0.1 ETH''}
           \<and> (\<forall>rt today fault tid st. fst (spin rt today r fault tid st) \<noteq> Inl TypeError)
           \<and> (\<forall>rt today tid st.
                 0 < spinsLeft (rollover rt today (account st tid)) \<longrightarrow>
                 (\<exists>b n. fst (spin rt today r NoFault tid st) = Inr (Response 200 (RewardBody (label rw) b n))))"
proof -
  let ?rw = "rewards_table ! nat \<lfloor>r * 4\<rfloor>"
  have ra: "rewardAt r = Some ?rw"
    using rewardAt_in_range [OF assms] by simp
  have mem: "?rw \<in> set rewards_table"
    using ra by (rule rewardAt_mem)
  have lab: "label ?rw \<in> {''0.001 ETH'', ''5 USDT'', ''Try Again'', ''0.1 ETH''}"
    using mem by (rule table_labels)
  have nothrow: "fst (spin rt today r fault tid st) \<noteq> Inl TypeError" for rt today fault tid st
    by (simp add: spin_unfold spin_finish_def ra Let_def)
  have granted: "\<exists>b n. fst (spin rt today r NoFault tid st) = Inr (Response 200 (RewardBody (label ?rw) b n))"
    if "0 < spinsLeft (rollover rt today (account st tid))" for rt today tid st
    using that by (simp add: spin_unfold spin_finish_def ra Let_def)
  show ?thesis using ra mem lab nothrow granted by blast
qed

theorem reward_selection_total_witness:
  "(0::real) \<le> 1 / 2 \<and> (1::real) / 2 < 1 \<and>
   rewardAt (1 / 2) = Some \<lparr>label = ''Try Again'', rvalue = 0\<rparr> \<and>
   fst (spin example_runtime 0 (1 / 2) NoFault ''u1'' Map.empty)
     = Inr (Response 200 (RewardBody ''Try Again'' 0 2))"
  using reward_selection_total [of "1 / 2"]
  by (simp add: rewardAt_def rewards_table_def spin_unfold spin_finish_def account_def newUser_def
      rollover_def needsRollover_def)

subsection \<open>Payloads without a hash\<close>

text \<open>
  Claim C5, as the code has it. \<^verbatim>\<open>verifyTelegram\<close> returns a boolean and has no class
  of malformed payloads: for a non-empty payload with no \<^verbatim>\<open>hash\<close> field (or an empty
  one) it returns \<^verbatim>\<open>false\<close>, and the endpoint answers 403 "Invalid Telegram data", as
  for a wrong signature, with the store untouched. Status 400 "Missing initData" is the
  answer to a missing or empty payload.
\<close>

theorem missing_hash_rejected:
  assumes "s \<noteq> []"
    and "get (URLSearchParams s) ''hash'' = None \<or> get (URLSearchParams s) ''hash'' = Some []"
  shows "verifyTelegram rt (Some s) = Inr False
     \<and> api_spin rt today r fault (Some s) st = (Response 403 (ErrorBody ''Invalid Telegram data''), st)
     \<and> api_spin rt today r fault None st = (Response 400 (ErrorBody ''Missing initData''), st)
     \<and> api_spin rt today r fault (Some []) st = (Response 400 (ErrorBody ''Missing initData''), st)"
  using assms verifyTelegram_no_hash [OF assms(2), of rt] by (simp add: api_spin_def)

theorem missing_hash_rejected_witness:
  "''user=1'' \<noteq> [] \<and> get (URLSearchParams ''user=1'') ''hash'' = None
   \<and> api_spin example_runtime 0 0 NoFault (Some ''user=1'') Map.empty
       = (Response 403 (ErrorBody ''Invalid Telegram data''), Map.empty)"
  using missing_hash_rejected [of "''user=1''" example_runtime 0 0 NoFault Map.empty]
  by (simp add: URLSearchParams_user1 get_def)

text \<open>
  Claim C5, as stated, fails: the payload \<^verbatim>\<open>user=1\<close> has no \<^verbatim>\<open>hash\<close> field and is
  answered with status 403, not 400.
\<close>

theorem missing_hash_not_400:
  "get (URLSearchParams ''user=1'') ''hash'' = None
   \<and> status (fst (api_spin example_runtime 0 0 NoFault (Some ''user=1'') Map.empty)) \<noteq> 400
   \<and> status (fst (api_spin example_runtime 0 0 NoFault (Some ''user=1'') Map.empty)) = 403"
  by (simp add: URLSearchParams_user1 get_def api_spin_def verifyTelegram_def verifyTelegram_try_def)

subsection \<open>Identity extraction\<close>

text \<open>
  Claim C7 says that a payload with an unparseable \<^verbatim>\<open>user\<close> field and a valid flat
  \<^verbatim>\<open>id\<close> field still resolves an identity. In \<^verbatim>\<open>extractTelegramId\<close> the exception of
  \<^verbatim>\<open>JSON.parse\<close> reaches the \<^verbatim>\<open>catch\<close> clause, which returns \<^verbatim>\<open>null\<close>; the fallback to
  the flat fields is skipped. For the payload \<^verbatim>\<open>user=%7Bbad&id=42\<close> the \<^verbatim>\<open>user\<close> field
  is \<^verbatim>\<open>{bad\<close>, the flat fields give \<^verbatim>\<open>42\<close>, and the function returns \<^verbatim>\<open>null\<close>.
  (\<open>extractTelegramId_no_user\<close> and \<open>extractTelegramId_no_id\<close> are the cases in which the
  fallback is taken, \<open>extractTelegramId_parse_error\<close> the one in which it is not.)
\<close>

theorem unparseable_user_hides_flat_id:
  "get (URLSearchParams ''user=%7Bbad&id=42'') ''user'' = Some ''{bad''
   \<and> JSON_parse example_runtime ''{bad'' = Inl SyntaxError
   \<and> flatId (URLSearchParams ''user=%7Bbad&id=42'') = Some ''42''
   \<and> extractTelegramId example_runtime ''user=%7Bbad&id=42'' = Inr None"
  by (simp add: URLSearchParams_bad_user get_def flatId_def orElse_def strTruthy_def
      extractTelegramId_def extractTelegramId_try_def example_runtime_def)

subsection \<open>verifyTelegram never throws\<close>

text \<open>
  Claim C8. For every payload, missing and empty ones included, and whatever the calls
  inside the \<^verbatim>\<open>try\<close> block do, \<^verbatim>\<open>verifyTelegram\<close> returns a boolean: a missing or
  empty payload gives \<^verbatim>\<open>false\<close>, an exception inside the block gives \<^verbatim>\<open>false\<close>, and
  on \<^verbatim>\<open>false\<close> the endpoint answers 400 or 403 and leaves the store alone. (The failure
  value of the code is the boolean \<^verbatim>\<open>false\<close>.)
\<close>

theorem verifyTelegram_total:
  "(\<exists>b. verifyTelegram rt initData = Inr b)
   \<and> verifyTelegram rt None = Inr False
   \<and> verifyTelegram rt (Some []) = Inr False
   \<and> (\<forall>e. verifyTelegram_try rt initData = Inl e \<longrightarrow> verifyTelegram rt initData = Inr False)
   \<and> (verifyTelegram rt initData = Inr False \<longrightarrow>
        status (fst (api_spin rt today r fault initData st)) \<in> {400, 403}
        \<and> snd (api_spin rt today r fault initData st) = st)"
  by (auto simp add: verifyTelegram_def verifyTelegram_try_def api_spin_def
      split: sum.splits option.splits)

theorem verifyTelegram_total_witness:
  "verifyTelegram_try (example_runtime\<lparr>sha256 := (\<lambda>s. Inl CryptoError)\<rparr>) (Some ''hash=ab'')
     = Inl CryptoError
   \<and> verifyTelegram (example_runtime\<lparr>sha256 := (\<lambda>s. Inl CryptoError)\<rparr>) (Some ''hash=ab'')
     = Inr False
   \<and> status (fst (api_spin (example_runtime\<lparr>sha256 := (\<lambda>s. Inl CryptoError)\<rparr>) 0 0 NoFault
        (Some ''hash=ab'') Map.empty)) \<in> {400, 403}"
proof -
  have p: "URLSearchParams ''hash=ab'' = [(''hash'', ''ab'')]"
    by code_simp
  have t: "verifyTelegram_try (example_runtime\<lparr>sha256 := (\<lambda>s. Inl CryptoError)\<rparr>) (Some ''hash=ab'')
     = Inl CryptoError"
    by (simp add: verifyTelegram_try_def p get_def)
  show ?thesis
    using t verifyTelegram_total [of "example_runtime\<lparr>sha256 := (\<lambda>s. Inl CryptoError)\<rparr>"
        "Some ''hash=ab''" 0 0 NoFault Map.empty]
    by simp
qed

subsection \<open>The check-string does not depend on the order of the fields\<close>

text \<open>
  Claim C6. Let two payloads have the same fields up to their order (the parsed lists
  of pairs are permutations of each other) and the same hash value (what
  \<^verbatim>\<open>get("hash")\<close> returns). Then they have the same check-string, and \<^verbatim>\<open>verifyTelegram\<close>
  returns the same result on both, in src/index.js and in the older variant.
\<close>

theorem check_string_order_independent:
  assumes "mset (URLSearchParams s') = mset (URLSearchParams s)"
    and "get (URLSearchParams s') ''hash'' = get (URLSearchParams s) ''hash''"
  shows "dataCheckString s' = dataCheckString s
     \<and> verifyTelegram rt (Some s') = verifyTelegram rt (Some s)
     \<and> verifyTelegram_legacy rt (Some s') = verifyTelegram_legacy rt (Some s)"
proof -
  have d: "dataCheckStringOf (URLSearchParams s') = dataCheckStringOf (URLSearchParams s)"
    using assms(1) by (rule dataCheckStringOf_mset)
  have "verifyTelegram_try rt (Some s') = verifyTelegram_try rt (Some s)"
    by (simp only: verifyTelegram_try_parsed d assms(2))
  then have v: "verifyTelegram rt (Some s') = verifyTelegram rt (Some s)"
    by (simp add: verifyTelegram_def)
  have l: "verifyTelegram_legacy rt (Some s') = verifyTelegram_legacy rt (Some s)"
    by (simp only: verifyTelegram_legacy_def Let_def d assms(2) option.case)
  show ?thesis using d v l by (simp add: dataCheckString_def)
qed


theorem check_string_order_independent_witness:
  "mset (URLSearchParams ''a=1&hash=0a&b=2'') = mset (URLSearchParams ''b=2&a=1&hash=0a'')
   \<and> get (URLSearchParams ''a=1&hash=0a&b=2'') ''hash'' = get (URLSearchParams ''b=2&a=1&hash=0a'') ''hash''
   \<and> dataCheckString ''a=1&hash=0a&b=2'' = dataCheckString ''b=2&a=1&hash=0a''
   \<and> dataCheckString ''b=2&a=1&hash=0a'' = ''a=1'' @ [CHR 0x0A] @ ''b=2''
   \<and> verifyTelegram example_runtime (Some ''a=1&hash=0a&b=2'') = Inr True
   \<and> verifyTelegram example_runtime (Some ''b=2&a=1&hash=0a'') = Inr True"
proof -
  have p1: "URLSearchParams ''a=1&hash=0a&b=2'' = [(''a'', ''1''), (''hash'', ''0a''), (''b'', ''2'')]"
    by code_simp
  have p2: "URLSearchParams ''b=2&a=1&hash=0a'' = [(''b'', ''2''), (''a'', ''1''), (''hash'', ''0a'')]"
    by code_simp
  have m: "mset (URLSearchParams ''a=1&hash=0a&b=2'') = mset (URLSearchParams ''b=2&a=1&hash=0a'')"
    by (simp add: p1 p2)
  have g: "get (URLSearchParams ''a=1&hash=0a&b=2'') ''hash'' = get (URLSearchParams ''b=2&a=1&hash=0a'') ''hash''"
    by (simp add: p1 p2 get_def)
  have c: "dataCheckString ''b=2&a=1&hash=0a'' = ''a=1'' @ [CHR 0x0A] @ ''b=2''"
    by code_simp
  have v: "verifyTelegram example_runtime (Some ''b=2&a=1&hash=0a'') = Inr True"
    by code_simp
  show ?thesis
    using check_string_order_independent [OF m g, of example_runtime] m g c v by simp
qed

subsection \<open>The bounds of spinsLeft\<close>

text \<open>
  Claim C3. Along every run of requests and resets, \<^verbatim>\<open>spinsLeft\<close> of no account becomes
  negative, and it stays between 0 and 3 when it starts there. It is 3 for every
  account right after a reset that reached the store, and 3 right after a rollover. A
  granted call leaves the account with exactly one spin less than it had after the
  rollover test. A call without rollover never raises \<^verbatim>\<open>spinsLeft\<close> of its account, and
  no call changes another account: only the rollover and the reset set the full
  allotment.
\<close>

theorem spins_remaining_invariant:
  "(spinsNonneg st \<longrightarrow> spinsNonneg (run rt ops st))
   \<and> (spinsInRange st \<longrightarrow> spinsInRange (run rt ops st))
   \<and> (\<forall>u \<in> ran (resetSpinsForAllUsers now False st). spinsLeft u = 3)
   \<and> (needsRollover rt day v \<longrightarrow> spinsLeft (rollover rt day v) = 3)
   \<and> (isGranted (fst (spin rt today r fault tid st)) \<longrightarrow>
        spinsLeft (account (snd (spin rt today r fault tid st)) tid)
          = spinsLeft (rollover rt today (account st tid)) - 1)
   \<and> (\<not> needsRollover rt today (account st tid) \<longrightarrow>
        spinsLeft (account (snd (spin rt today r fault tid st)) tid) \<le> spinsLeft (account st tid))
   \<and> (tid' \<noteq> tid \<longrightarrow> snd (spin rt today r fault tid st) tid' = st tid')"
  using run_spinsNonneg [of st rt ops] run_spinsInRange [of st rt ops] reset_full [of _ now st]
    spin_granted_decrement [of rt today r fault tid st]
    spin_no_rollover_no_increase [of rt today st tid r fault]
    spin_other_accounts [of tid' tid rt today r fault st]
  by (simp add: rollover_def)

theorem spins_remaining_invariant_witness:
  "spinsNonneg (Map.empty(''u1'' \<mapsto> \<lparr>telegramId = ''u1'', spinsLeft = 1, rewards = [], balance = 0,
           lastSpinDate = Some 1704103200000\<rparr>))
   \<and> spinsInRange (Map.empty(''u1'' \<mapsto> \<lparr>telegramId = ''u1'', spinsLeft = 1, rewards = [], balance = 0,
           lastSpinDate = Some 1704103200000\<rparr>))
   \<and> spinsInRange (run example_runtime
         [Spin 1704110400000 (1 / 2) NoFault (Some ''id=u1&hash=08''), Reset 1704153600000 False,
          Spin 1704160000000 0 SaveFails (Some ''id=u1&hash=08'')]
         (Map.empty(''u1'' \<mapsto> \<lparr>telegramId = ''u1'', spinsLeft = 1, rewards = [], balance = 0,
           lastSpinDate = Some 1704103200000\<rparr>)))
   \<and> resetSpinsForAllUsers 1704153600000 False
         (Map.empty(''u1'' \<mapsto> \<lparr>telegramId = ''u1'', spinsLeft = 1, rewards = [], balance = 0,
           lastSpinDate = Some 1704103200000\<rparr>)) ''u1''
       = Some \<lparr>telegramId = ''u1'', spinsLeft = 3, rewards = [], balance = 0,
           lastSpinDate = Some 1704153600000\<rparr>
   \<and> needsRollover example_runtime 1704196800000
         \<lparr>telegramId = ''u1'', spinsLeft = 1, rewards = [], balance = 0,
           lastSpinDate = Some 1704103200000\<rparr>
   \<and> isGranted (fst (spin example_runtime 1704110400000 (1 / 2) NoFault ''u1''
         (Map.empty(''u1'' \<mapsto> \<lparr>telegramId = ''u1'', spinsLeft = 1, rewards = [], balance = 0,
           lastSpinDate = Some 1704103200000\<rparr>))))
   \<and> \<not> needsRollover example_runtime 1704110400000
         (account (Map.empty(''u1'' \<mapsto> \<lparr>telegramId = ''u1'', spinsLeft = 1, rewards = [], balance = 0,
           lastSpinDate = Some 1704103200000\<rparr>)) ''u1'')
   \<and> spinsLeft (account (snd (spin example_runtime 1704110400000 (1 / 2) NoFault ''u1''
         (Map.empty(''u1'' \<mapsto> \<lparr>telegramId = ''u1'', spinsLeft = 1, rewards = [], balance = 0,
           lastSpinDate = Some 1704103200000\<rparr>)))) ''u1'') = 0
   \<and> ''u2'' \<noteq> ''u1''"
proof -
  let ?u = "\<lparr>telegramId = ''u1'', spinsLeft = 1, rewards = [], balance = 0,
           lastSpinDate = Some (1704103200000 :: int)\<rparr>"
  let ?st = "Map.empty(''u1'' \<mapsto> ?u)"
  have a: "spinsNonneg ?st" by (simp add: spinsNonneg_def)
  have b: "spinsInRange ?st" by (simp add: spinsInRange_def)
  have c: "resetSpinsForAllUsers 1704153600000 False ?st ''u1''
       = Some \<lparr>telegramId = ''u1'', spinsLeft = 3, rewards = [], balance = 0,
           lastSpinDate = Some 1704153600000\<rparr>"
    by (simp add: resetSpinsForAllUsers_def)
  have d: "needsRollover example_runtime 1704196800000 ?u"
    by (simp add: needsRollover_def toDateString_def msPerDay_def example_runtime_def)
  have e: "\<not> needsRollover example_runtime 1704110400000 (account ?st ''u1'')"
    by (simp add: account_def needsRollover_def toDateString_def msPerDay_def example_runtime_def)
  have f: "fst (spin example_runtime 1704110400000 (1 / 2) NoFault ''u1'' ?st)
             = Inr (Response 200 (RewardBody ''Try Again'' 0 0))"
    using e by (simp add: spin_unfold spin_finish_def rollover_def rewardAt_def rewards_table_def account_def)
  show ?thesis
    using a b c d e f
      spins_remaining_invariant [of ?st example_runtime
        "[Spin 1704110400000 (1 / 2) NoFault (Some ''id=u1&hash=08''), Reset 1704153600000 False,
          Spin 1704160000000 0 SaveFails (Some ''id=u1&hash=08'')]"
        1704153600000 1704196800000 ?u 1704110400000 "1 / 2" NoFault "''u1''" "''u2''"]
    by (simp add: rollover_def account_def)
qed

subsection \<open>Repeated calls for one account\<close>

text \<open>
  Claim C9, for calls that do not overlap. Let an account have \<open>k \<ge> 0\<close> spins left, and
  let \<open>N\<close> calls of the handler for it run one after the other, each finished before the
  next starts, all on the local day of its \<^verbatim>\<open>lastSpinDate\<close> (no rollover is due), with
  the store reachable and draws in \<open>[0, 1)\<close>. Then there are \<open>N\<close> responses, exactly
  \<open>min N k\<close> of them granted and the others "No spins left today"; the balance ends at
  the initial balance plus the values of the rewards of the first \<open>k\<close> calls, which are
  the granted ones; and \<open>min N k\<close> spins are consumed.
\<close>

theorem sequential_spins_quota:
  assumes "st tid = Some u" and "lastSpinDate u = Some d" and "0 \<le> spinsLeft u"
    and "\<forall>(today, r) \<in> set calls. toDateString rt today = toDateString rt d \<and> 0 \<le> r \<and> r < 1"
    and "spins rt calls tid st = (rs, st')"
  shows "length rs = length calls
     \<and> length (filter isGranted rs) = min (length calls) (nat (spinsLeft u))
     \<and> length (filter isNoSpinsLeft rs) = length calls - min (length calls) (nat (spinsLeft u))
     \<and> balance (account st' tid)
         = balance u + sum_list (map (\<lambda>(today, r). drawValue r) (take (nat (spinsLeft u)) calls))
     \<and> spinsLeft (account st' tid) = spinsLeft u - int (min (length calls) (nat (spinsLeft u)))"
  using assms
proof (induction calls arbitrary: st u rs st')
  case Nil
  then show ?case by (simp add: account_def)
next
  case (Cons c cs)
  obtain today r where c: "c = (today, r)" by (cases c)
  have day: "toDateString rt today = toDateString rt d" and r0: "0 \<le> r" and r1: "r < 1"
    using Cons.prems(4) c by simp_all
  have rest: "\<forall>(today, r) \<in> set cs. toDateString rt today = toDateString rt d \<and> 0 \<le> r \<and> r < 1"
    using Cons.prems(4) by simp
  show ?case
  proof (cases "spinsLeft u = 0")
    case True
    have "spins rt (c # cs) tid st =
           (replicate (length (c # cs)) (Inr (Response 200 (NoSpinsBody ''No spins left today'' 0))), st)"
      using spins_no_spins [of st tid u d "c # cs" rt] Cons.prems(1,2,4) True by blast
    then have "rs = replicate (length (c # cs)) (Inr (Response 200 (NoSpinsBody ''No spins left today'' 0)))"
      and "st' = st"
      using Cons.prems(5) by simp_all
    then show ?thesis using True Cons.prems(1) by (simp add: account_def)
  next
    case False
    then have pos: "0 < spinsLeft u" using Cons.prems(3) by simp
    define u1 where "u1 = u\<lparr>spinsLeft := spinsLeft u - 1, balance := balance u + drawValue r,
                 rewards := (if 0 < drawValue r then rewards u @ [label (the (rewardAt r))] else rewards u)\<rparr>"
    define res :: "exn + response"
      where "res = Inr (Response 200 (RewardBody (label (the (rewardAt r))) (balance u + drawValue r) (spinsLeft u - 1)))"
    have u1: "spinsLeft u1 = spinsLeft u - 1" "balance u1 = balance u + drawValue r"
      "lastSpinDate u1 = Some d"
      using Cons.prems(2) by (simp_all add: u1_def)
    have s1: "spin rt today r NoFault tid st = (res, st(tid \<mapsto> u1))"
      using spin_same_day [of st tid u d rt today r] Cons.prems(1,2) day r0 r1 pos
      by (simp add: u1_def res_def)
    obtain rs1 where tl: "spins rt cs tid (st(tid \<mapsto> u1)) = (rs1, st')" and rs: "rs = res # rs1"
      using Cons.prems(5) s1 c by (auto split: prod.splits)
    have ih: "length rs1 = length cs
     \<and> length (filter isGranted rs1) = min (length cs) (nat (spinsLeft u1))
     \<and> length (filter isNoSpinsLeft rs1) = length cs - min (length cs) (nat (spinsLeft u1))
     \<and> balance (account st' tid)
         = balance u1 + sum_list (map (\<lambda>(today, r). drawValue r) (take (nat (spinsLeft u1)) cs))
     \<and> spinsLeft (account st' tid) = spinsLeft u1 - int (min (length cs) (nat (spinsLeft u1)))"
    proof (rule Cons.IH [of "st(tid \<mapsto> u1)" u1 rs1 st'])
      show "(st(tid \<mapsto> u1)) tid = Some u1" by simp
      show "lastSpinDate u1 = Some d" by (rule u1(3))
      show "0 \<le> spinsLeft u1" using pos u1(1) by simp
      show "\<forall>(today, r) \<in> set cs. toDateString rt today = toDateString rt d \<and> 0 \<le> r \<and> r < 1"
        by (rule rest)
      show "spins rt cs tid (st(tid \<mapsto> u1)) = (rs1, st')" by (rule tl)
    qed
    have g: "isGranted res" "\<not> isNoSpinsLeft res" by (simp_all add: res_def)
    have k: "nat (spinsLeft u) = Suc (nat (spinsLeft u - 1))" using pos by simp
    show ?thesis
      using ih rs c k g u1 pos by (simp add: algebra_simps)
  qed
qed


theorem sequential_spins_quota_witness:
  "(Map.empty(''u5'' \<mapsto> \<lparr>telegramId = ''u5'', spinsLeft = 2, rewards = [], balance = 0,
        lastSpinDate = Some 1704103200000\<rparr>)) ''u5''
     = Some \<lparr>telegramId = ''u5'', spinsLeft = 2, rewards = [], balance = 0,
        lastSpinDate = Some 1704103200000\<rparr>
   \<and> spins example_runtime
        [(1704110400000, 0), (1704110400001, 1 / 4), (1704110400002, 3 / 4)] ''u5''
        (Map.empty(''u5'' \<mapsto> \<lparr>telegramId = ''u5'', spinsLeft = 2, rewards = [], balance = 0,
           lastSpinDate = Some 1704103200000\<rparr>))
      = ([Inr (Response 200 (RewardBody ''0.001 ETH'' (1 / 1000) 1)),
          Inr (Response 200 (RewardBody ''5 USDT'' (5001 / 1000) 0)),
          Inr (Response 200 (NoSpinsBody ''No spins left today'' 0))],
         Map.empty(''u5'' \<mapsto> \<lparr>telegramId = ''u5'', spinsLeft = 0,
           rewards = [''0.001 ETH'', ''5 USDT''], balance = 5001 / 1000,
           lastSpinDate = Some 1704103200000\<rparr>))
   \<and> length (filter isGranted
        [Inr (Response 200 (RewardBody ''0.001 ETH'' (1 / 1000) 1)),
         Inr (Response 200 (RewardBody ''5 USDT'' (5001 / 1000) 0)),
         Inr (Response 200 (NoSpinsBody ''No spins left today'' 0))]) = min 3 (nat 2)
   \<and> balance (account (Map.empty(''u5'' \<mapsto> \<lparr>telegramId = ''u5'', spinsLeft = 0,
           rewards = [''0.001 ETH'', ''5 USDT''], balance = 5001 / 1000,
           lastSpinDate = Some 1704103200000\<rparr>)) ''u5'') = 0 + (drawValue 0 + drawValue (1 / 4))"
proof -
  let ?u = "\<lparr>telegramId = ''u5'', spinsLeft = 2, rewards = [], balance = 0,
        lastSpinDate = Some (1704103200000 :: int)\<rparr>"
  let ?st = "Map.empty(''u5'' \<mapsto> ?u)"
  let ?calls = "[(1704110400000 :: int, 0 :: real), (1704110400001, 1 / 4), (1704110400002, 3 / 4)]"
  let ?rs = "[Inr (Response 200 (RewardBody ''0.001 ETH'' (1 / 1000) 1)),
          Inr (Response 200 (RewardBody ''5 USDT'' (5001 / 1000) 0)),
          Inr (Response 200 (NoSpinsBody ''No spins left today'' 0)) :: exn + response]"
  let ?st' = "Map.empty(''u5'' \<mapsto> \<lparr>telegramId = ''u5'', spinsLeft = 0,
           rewards = [''0.001 ETH'', ''5 USDT''], balance = 5001 / 1000,
           lastSpinDate = Some (1704103200000 :: int)\<rparr>)"
  have run: "spins example_runtime ?calls ''u5'' ?st = (?rs, ?st')"
    by (simp add: spin_unfold spin_finish_def account_def rollover_def needsRollover_def
        same_day_example rewardAt_def rewards_table_def)
  have days: "\<forall>(today, r) \<in> set ?calls.
      toDateString example_runtime today = toDateString example_runtime 1704103200000 \<and> 0 \<le> r \<and> r < 1"
    by (simp add: same_day_example)
  show ?thesis
    using run days
      sequential_spins_quota [where st = ?st and tid = "''u5''" and u = ?u and d = 1704103200000
        and rt = example_runtime and calls = ?calls and rs = ?rs and st' = ?st']
    by (simp add: account_def)
qed

text \<open>
  Claim C9, as stated for concurrent calls, fails. The handler reads the account
  (\<^verbatim>\<open>await User.findOne\<close>) and writes it back (\<^verbatim>\<open>await user.save()\<close>) in separate steps.
  Two requests against an account with one spin left that both read before either
  saves are both granted: two granted responses where \<open>min 2 1 = 1\<close>.
\<close>

theorem overlapping_spins_both_granted:
  "fst (overlapped_spins example_runtime (1704110400000, 0) (1704110400001, 1 / 4) ''u4''
          (Map.empty(''u4'' \<mapsto> \<lparr>telegramId = ''u4'', spinsLeft = 1, rewards = [], balance = 0,
             lastSpinDate = Some 1704103200000\<rparr>)))
     = Inr (Response 200 (RewardBody ''0.001 ETH'' (1 / 1000) 0))
   \<and> fst (snd (overlapped_spins example_runtime (1704110400000, 0) (1704110400001, 1 / 4) ''u4''
          (Map.empty(''u4'' \<mapsto> \<lparr>telegramId = ''u4'', spinsLeft = 1, rewards = [], balance = 0,
             lastSpinDate = Some 1704103200000\<rparr>))))
     = Inr (Response 200 (RewardBody ''5 USDT'' 5 0))
   \<and> length (filter isGranted
        [Inr (Response 200 (RewardBody ''0.001 ETH'' (1 / 1000) 0)),
         Inr (Response 200 (RewardBody ''5 USDT'' 5 0))]) \<noteq> min 2 (nat 1)"
  by (simp add: overlapped_spins_def spin_load_def spin_finish_def rollover_def needsRollover_def
      same_day_example rewardAt_def rewards_table_def)


end
